theory Spec2Isabelle
  imports Main "HOL-Library.Sublist"
begin

section \<open>Event distribution: data model\<close>

text \<open>
  The development follows the class \<open>EventDistribution\<close>: the registry lookup
  \<open>getHandlers\<close>, the filter pipeline \<open>filterHandlers\<close>, the dispatcher \<open>handleEvent\<close>
  and the autocomplete router \<open>handleAutocomplete\<close>.

  Object identity (a singleton instance, a class) is a natural number. A JavaScript
  object used as a dictionary is its own string-keyed properties: an association list
  read with \<open>map_of\<close> for a registry node, a partial map for the error-message table.
\<close>

datatype DiscordEvent =
    BUTTON_CLICKED | CONTEXT_MENU_MESSAGE | CONTEXT_MENU_USER | MEMBER_LEAVE | MESSAGE
  | REACTION_ADD | REACTION_REMOVE | GUILD_MEMBER_UPDATE | READY | SLASH_COMMAND
  | THREAD_CREATE | TIMER | VOICE_STATE_UPDATE | MEMBER_JOIN

datatype EventLocation = ANYWHERE | DIRECT_MESSAGE | SERVER

datatype HandlerRejectedReason = WRONG_LOCATION | MISSING_ROLE | DOESNT_MATCH_REGEX

text \<open>
  \<open>InstanceOrConstructor\<close>: a shared instance, or a class of which \<open>handleEvent\<close> makes
  an instance (\<open>typeof instance === "function"\<close>). \<open>completedIocs.includes\<close> compares
  references, here the constructor and the number.
\<close>

datatype InstanceOrConstructor = Instance nat | Constructor nat

text \<open>
  The \<open>autocomplete\<close> property of a slash-command option: missing
  (\<open>!("autocomplete" in o)\<close>), present with a falsy value, or a callback.
\<close>

datatype AutocompleteProperty = NotDeclared | DeclaredFalsy | AutocompleteFn nat

record CommandOption =
  name :: string
  autocomplete :: AutocompleteProperty

text \<open>
  The options of a handler that \<open>EventDistribution\<close> reads. Every optional property is
  an \<open>option\<close>. \<open>commandOptions\<close> is the property \<open>options.options\<close> of a slash command;
  \<open>'r\<close> is the type of regular expressions.
\<close>

record 'r EventHandlerOptions =
  event :: DiscordEvent
  location :: "EventLocation option"
  allowedRoles :: "string list option"
  contentRegex :: "'r option"
  errors :: "(string \<rightharpoonup> string) option"
  commandOptions :: "CommandOption list option"

record 'r HIOC =
  ioc :: InstanceOrConstructor
  options :: "'r EventHandlerOptions"

text \<open>
  A registry node (\<open>StringIndexedHIOCTreeNode\<close>) is an array of handlers, for which
  \<open>isHIOCArray\<close> holds, or an object from key segments to nodes. A property that is
  missing reads as \<open>undefined\<close>, here \<open>None\<close>.
\<close>

datatype 'h StringIndexedHIOCTreeNode =
    HIOCArray "'h list"
  | HIOCTree "(string \<times> 'h StringIndexedHIOCTreeNode) list"

text \<open>
  \<open>HandlerInfo\<close> as \<open>infoToFilterResults\<close> reads it: \<open>member\<close> holds the names of the
  member's roles (\<open>member.roles.cache.map((r) => r.name)\<close>), \<open>content\<close> is \<open>None\<close> for
  \<open>null\<close> and for a missing property (\<open>content = null\<close> is the default).
\<close>

record HandlerInfo =
  handlerKeys :: "string list"
  isDirectMessage :: bool
  member :: "string list option"
  content :: "string option"

datatype 'r FilterResult =
    Accept "'r HIOC"
  | Reject "'r HIOC" HandlerRejectedReason

fun handler :: "'r FilterResult \<Rightarrow> 'r HIOC" where
  "handler (Accept h) = h"
| "handler (Reject h rsn) = h"

fun accepted :: "'r FilterResult \<Rightarrow> bool" where
  "accepted (Accept h) = True"
| "accepted (Reject h rsn) = False"

text \<open>
  What a handler's \<open>handle\<close> throws: an \<open>Error\<close> with its message, an \<open>ErrorWithParams\<close>
  with its message and parameters, or a value that is no \<open>Error\<close>, given by the string
  \<open>e + ""\<close>.
\<close>

datatype 'p Thrown = Error string | ErrorWithParams string 'p | NonError string

text \<open>
  The calls a dispatch makes to its collaborators, in the order it makes them.
  \<open>RejectWithError i text params\<close> is the call \<open>rejectWithError(error, event, ...args)\<close>
  with the error built from \<open>text\<close> (an \<open>ErrorWithParams\<close> when \<open>params\<close> is given); its
  first component records for which handler the call is made. The constructor, the
  reply, the telemetry capture and the logger are taken to return normally.
\<close>

datatype 'p Effect =
    Construct nat
  | Handle InstanceOrConstructor
  | RejectWithError InstanceOrConstructor string "'p option"
  | CaptureException "'p Thrown"
  | LogError InstanceOrConstructor "'p Thrown"

text \<open>
  The parts of the repository that \<open>EventDistribution\<close> imports: \<open>isMessageRelated\<close>,
  the matching of a regular expression (\<open>content.match\<close>), the property key that a value
  of the enumeration \<open>HandlerRejectedReason\<close> stands for, and the handlers themselves:
  \<open>handle i log\<close> is what \<open>instance.handle(...args)\<close> throws (\<open>None\<close> when it returns)
  for the handler \<open>i\<close>, after the calls \<open>log\<close> made so far in this dispatch.
\<close>

record ('r, 'p) Externals =
  isMessageRelated :: "'r EventHandlerOptions \<Rightarrow> bool"
  matchRegex :: "'r \<Rightarrow> string \<Rightarrow> bool"
  reasonKey :: "HandlerRejectedReason \<Rightarrow> string"
  handle :: "InstanceOrConstructor \<Rightarrow> 'p Effect list \<Rightarrow> 'p Thrown option"

section \<open>Registry lookup\<close>

text \<open>
  \<open>getHandlers(handlerTree, [currentKey, ...restKeys])\<close>. Destructuring an empty array
  leaves \<open>currentKey\<close> undefined and \<open>restKeys\<close> empty; \<open>!currentKey\<close> holds for
  \<open>undefined\<close> and for the empty string.
\<close>

function getHandlers ::
  "'h StringIndexedHIOCTreeNode option \<Rightarrow> string list \<Rightarrow> 'h list" where
  "getHandlers None keys = []"
| "getHandlers (Some (HIOCArray hs)) keys = hs"
| "getHandlers (Some (HIOCTree kids)) [] = getHandlers (map_of kids '''') []"
| "getHandlers (Some (HIOCTree kids)) (currentKey # restKeys) =
     (let handlers = getHandlers (map_of kids '''') restKeys in
      if currentKey = '''' then handlers
      else handlers @ getHandlers (map_of kids currentKey) restKeys)"
  by pat_completeness auto
termination
proof -
  have child: "size_option size (map_of kids k) < size_option size (Some (HIOCTree kids))"
    for kids :: "(string \<times> 'h StringIndexedHIOCTreeNode) list" and k
  proof (induction kids)
    case Nil
    show ?case by simp
  next
    case (Cons p kids)
    then show ?case by (cases p) auto
  qed
  show ?thesis
    by (relation "measure (\<lambda>(t, ks). size_option size t)") (use child in auto)
qed

section \<open>Filter pipeline\<close>

definition isHandlerForLocation ::
  "('r, 'p) Externals \<Rightarrow> 'r HIOC \<Rightarrow> bool \<Rightarrow> bool" where
  "isHandlerForLocation X h isDM =
     (if \<not> isMessageRelated X (options h) then True
      else case location (options h) of
             Some ANYWHERE \<Rightarrow> True
           | Some DIRECT_MESSAGE \<Rightarrow> isDM
           | Some SERVER \<Rightarrow> \<not> isDM
           | None \<Rightarrow> False)"

definition isHandlerForRole ::
  "('r, 'p) Externals \<Rightarrow> 'r HIOC \<Rightarrow> string list \<Rightarrow> bool" where
  "isHandlerForRole X h roleNames =
     (if \<not> isMessageRelated X (options h) then True
      else case allowedRoles (options h) of
             None \<Rightarrow> True
           | Some roles \<Rightarrow> length roles = 0 \<or> list_ex (\<lambda>role. role \<in> set roleNames) roles)"

definition matchesContentRegex ::
  "('r, 'p) Externals \<Rightarrow> 'r HIOC \<Rightarrow> string option \<Rightarrow> bool" where
  "matchesContentRegex X h c =
     (if \<not> isMessageRelated X (options h) then True
      else case contentRegex (options h) of
             None \<Rightarrow> True
           | Some regex \<Rightarrow>
               (case c of
                  None \<Rightarrow> False
                | Some text \<Rightarrow> matchRegex X regex text))"

text \<open>The three \<open>map\<close> stages of \<open>filterHandlers\<close>, one definition each.\<close>

definition locationStage :: "('r, 'p) Externals \<Rightarrow> bool \<Rightarrow> 'r HIOC \<Rightarrow> 'r FilterResult" where
  "locationStage X isDM eh =
     (if isHandlerForLocation X eh isDM then Accept eh else Reject eh WRONG_LOCATION)"

definition roleStage ::
  "('r, 'p) Externals \<Rightarrow> string list \<Rightarrow> 'r FilterResult \<Rightarrow> 'r FilterResult" where
  "roleStage X roleNames r =
     (if \<not> accepted r then r
      else if isHandlerForRole X (handler r) roleNames then r
      else Reject (handler r) MISSING_ROLE)"

definition contentStage ::
  "('r, 'p) Externals \<Rightarrow> string option \<Rightarrow> 'r FilterResult \<Rightarrow> 'r FilterResult" where
  "contentStage X c r =
     (if \<not> accepted r then r
      else if matchesContentRegex X (handler r) c then r
      else Reject (handler r) DOESNT_MATCH_REGEX)"

definition filterHandlers ::
  "('r, 'p) Externals \<Rightarrow> 'r HIOC list \<Rightarrow> bool \<Rightarrow> string list \<Rightarrow> string option
     \<Rightarrow> 'r FilterResult list" where
  "filterHandlers X handlers isDM roleNames c =
     map (contentStage X c) (map (roleStage X roleNames) (map (locationStage X isDM) handlers))"

type_synonym 'r EventDistributionHandlers =
  "DiscordEvent \<Rightarrow> 'r HIOC StringIndexedHIOCTreeNode"

definition infoToFilterResults ::
  "('r, 'p) Externals \<Rightarrow> 'r EventDistributionHandlers \<Rightarrow> HandlerInfo \<Rightarrow> DiscordEvent
     \<Rightarrow> 'r FilterResult list" where
  "infoToFilterResults X handlers info ev =
     (let roleNames = (case member info of None \<Rightarrow> [] | Some names \<Rightarrow> names);
          eventHandlers = getHandlers (Some (handlers ev)) (handlerKeys info)
      in filterHandlers X eventHandlers (isDirectMessage info) roleNames (content info))"

section \<open>Dispatcher\<close>

text \<open>
  \<open>errors && errors[reason]\<close>: the configured text, when the table exists, has the key
  and the text is truthy (not the empty string).
\<close>

definition configuredText :: "(string \<rightharpoonup> string) option \<Rightarrow> string \<Rightarrow> string option" where
  "configuredText errs key =
     (case errs of
        None \<Rightarrow> None
      | Some table \<Rightarrow>
          (case table key of
             None \<Rightarrow> None
           | Some text \<Rightarrow> if text = '''' then None else Some text))"

text \<open>\<open>e instanceof Error ? e.message : e + ""\<close>\<close>

fun failureReason :: "'p Thrown \<Rightarrow> string" where
  "failureReason (Error msg) = msg"
| "failureReason (ErrorWithParams msg ps) = msg"
| "failureReason (NonError str) = str"

text \<open>\<open>e.params\<close> when \<open>e instanceof ErrorWithParams\<close>\<close>

fun failureParams :: "'p Thrown \<Rightarrow> 'p option" where
  "failureParams (ErrorWithParams msg ps) = Some ps"
| "failureParams e = None"

text \<open>The \<open>catch\<close> block of the loop over the accepted handlers.\<close>

definition onFailure :: "'r HIOC \<Rightarrow> 'p Thrown \<Rightarrow> 'p Effect list" where
  "onFailure h e =
     (case configuredText (errors (options h)) (failureReason e) of
        Some text \<Rightarrow> [RejectWithError (ioc h) text (failureParams e)]
      | None \<Rightarrow> [CaptureException e, LogError (ioc h) e])"

text \<open>
  \<open>let instance = ioc; if (typeof instance === "function") instance = new instance()\<close>:
  the construction that precedes the call of \<open>handle\<close>, none for a shared instance.
\<close>

fun instantiate :: "InstanceOrConstructor \<Rightarrow> 'p Effect list" where
  "instantiate (Constructor c) = [Construct c]"
| "instantiate (Instance n) = []"

text \<open>
  One iteration of that loop for a handler that is not skipped: the instance is made
  when the \<open>ioc\<close> is a class, \<open>handle\<close> is called, and a failure is caught. \<open>log\<close> holds
  the calls made before.
\<close>

definition invokeHandler ::
  "('r, 'p) Externals \<Rightarrow> 'r HIOC \<Rightarrow> 'p Effect list \<Rightarrow> 'p Effect list" where
  "invokeHandler X h log =
     instantiate (ioc h) @ [Handle (ioc h)] @
     (case handle X (ioc h) (log @ instantiate (ioc h)) of
        None \<Rightarrow> []
      | Some e \<Rightarrow> onFailure h e)"

text \<open>
  The loop \<open>for (const {ioc, options: {errors}} of acceptedHiocs)\<close>. The state is
  \<open>completedIocs\<close> and the calls made so far.
\<close>

fun runAccepted ::
  "('r, 'p) Externals \<Rightarrow> 'r HIOC list \<Rightarrow> InstanceOrConstructor list \<times> 'p Effect list
     \<Rightarrow> InstanceOrConstructor list \<times> 'p Effect list" where
  "runAccepted X [] st = st"
| "runAccepted X (h # rest) (completedIocs, log) =
     (if ioc h \<in> set completedIocs then runAccepted X rest (completedIocs, log)
      else runAccepted X rest (completedIocs @ [ioc h], log @ invokeHandler X h log))"

text \<open>\<open>filterResults.filter(isRejection)\<close>, each rejection as its handler and reason.\<close>

fun rejectionsOf :: "'r FilterResult list \<Rightarrow> ('r HIOC \<times> HandlerRejectedReason) list" where
  "rejectionsOf [] = []"
| "rejectionsOf (Accept h # rs) = rejectionsOf rs"
| "rejectionsOf (Reject h rsn # rs) = (h, rsn) # rejectionsOf rs"

text \<open>The loop \<open>for (const {handler, reason} of rejections)\<close>.\<close>

fun runRejections ::
  "('r, 'p) Externals \<Rightarrow> ('r HIOC \<times> HandlerRejectedReason) list
     \<Rightarrow> InstanceOrConstructor list \<times> 'p Effect list
     \<Rightarrow> InstanceOrConstructor list \<times> 'p Effect list" where
  "runRejections X [] st = st"
| "runRejections X ((h, rsn) # rest) (completedIocs, log) =
     (if ioc h \<in> set completedIocs then runRejections X rest (completedIocs, log)
      else case configuredText (errors (options h)) (reasonKey X rsn) of
             None \<Rightarrow> runRejections X rest (completedIocs, log)
           | Some text \<Rightarrow>
               runRejections X rest
                 (completedIocs @ [ioc h], log @ [RejectWithError (ioc h) text None]))"

text \<open>
  \<open>handleEvent\<close>, from the occurrences \<open>extractEventInfo(event, ...args)\<close> on. The
  result is the sequence of calls the dispatch makes.
\<close>

definition filterResultsOf ::
  "('r, 'p) Externals \<Rightarrow> 'r EventDistributionHandlers \<Rightarrow> DiscordEvent \<Rightarrow> HandlerInfo list
     \<Rightarrow> 'r FilterResult list" where
  "filterResultsOf X handlers ev infos =
     concat (map (\<lambda>i. infoToFilterResults X handlers i ev) infos)"

definition acceptedHiocs :: "'r FilterResult list \<Rightarrow> 'r HIOC list" where
  "acceptedHiocs filterResults = map handler (filter accepted filterResults)"

definition handleEvent ::
  "('r, 'p) Externals \<Rightarrow> 'r EventDistributionHandlers \<Rightarrow> DiscordEvent \<Rightarrow> HandlerInfo list
     \<Rightarrow> 'p Effect list" where
  "handleEvent X handlers ev infos =
     (let filterResults = filterResultsOf X handlers ev infos;
          afterAccepted = runAccepted X (acceptedHiocs filterResults) ([], []);
          rejections = rejectionsOf filterResults
      in snd (runRejections X rejections afterAccepted))"

section \<open>Autocomplete\<close>

text \<open>
  What \<open>handleAutocomplete\<close> reads of the interaction: \<open>commandId\<close>,
  \<open>options.getSubcommandGroup(false)\<close>, \<open>options.getSubcommand(false)\<close> (\<open>None\<close> for
  \<open>null\<close>) and the name and value of \<open>options.getFocused(true)\<close>.
\<close>

record AutocompleteInteraction =
  commandId :: string
  subcommandGroup :: "string option"
  subcommand :: "string option"
  focusedName :: string
  focusedValue :: string

text \<open>
  The calls of \<open>handleAutocomplete\<close>: the two warnings, the error log of the \<open>catch\<close>
  block and \<open>interaction.respond\<close>.
\<close>

datatype ('e, 's) AutocompleteEffect =
    WarnNoHandler "string list"
  | WarnNoOption InstanceOrConstructor string
  | LogFailure 'e
  | Respond "'s list"

definition slashCommandHandlerKeys :: "AutocompleteInteraction \<Rightarrow> string list" where
  "slashCommandHandlerKeys interaction =
     [commandId interaction,
      (case subcommandGroup interaction of None \<Rightarrow> '''' | Some g \<Rightarrow> g),
      (case subcommand interaction of None \<Rightarrow> '''' | Some s \<Rightarrow> s)]"

text \<open>\<open>slashCommandHioc.options.options?.find((o) => o.name === focusedOptionName)\<close>\<close>

definition maybeAutocompleteOption ::
  "'r HIOC \<Rightarrow> AutocompleteInteraction \<Rightarrow> CommandOption option" where
  "maybeAutocompleteOption slashCommandHioc interaction =
     (case commandOptions (options slashCommandHioc) of
        None \<Rightarrow> None
      | Some declared \<Rightarrow> find (\<lambda>candidate. name candidate = focusedName interaction) declared)"

text \<open>
  \<open>callback f v\<close> is the outcome of the callback \<open>f\<close> on the focused value \<open>v\<close>:
  \<open>Inl e\<close> when it throws or rejects with \<open>e\<close>, \<open>Inr response\<close> when it resolves.
  The result is the sequence of calls made; \<open>interaction.respond\<close> and the logger
  are taken to return normally.
\<close>

definition handleAutocomplete ::
  "(nat \<Rightarrow> string \<Rightarrow> 'e + 's list) \<Rightarrow> 'r EventDistributionHandlers \<Rightarrow> AutocompleteInteraction
     \<Rightarrow> ('e, 's) AutocompleteEffect list" where
  "handleAutocomplete callback handlers interaction =
     (let tree = handlers SLASH_COMMAND
      in case getHandlers (Some tree) (slashCommandHandlerKeys interaction) of
           [] \<Rightarrow> [WarnNoHandler (slashCommandHandlerKeys interaction)]
         | slashCommandHioc # others \<Rightarrow>
             (case maybeAutocompleteOption slashCommandHioc interaction of
                None \<Rightarrow> [WarnNoOption (ioc slashCommandHioc) (focusedName interaction)]
              | Some opt \<Rightarrow>
                  (case autocomplete opt of
                     NotDeclared \<Rightarrow>
                       [WarnNoOption (ioc slashCommandHioc) (focusedName interaction)]
                   | DeclaredFalsy \<Rightarrow>
                       [WarnNoOption (ioc slashCommandHioc) (focusedName interaction)]
                   | AutocompleteFn f \<Rightarrow>
                       (case callback f (focusedValue interaction) of
                          Inr response \<Rightarrow> [Respond response]
                        | Inl e \<Rightarrow> [LogFailure e, Respond []]))))"

section \<open>Observations on a dispatch\<close>


text \<open>The handlers for which a reply was sent, one entry for each reply.\<close>

fun repliedFor :: "'p Effect list \<Rightarrow> InstanceOrConstructor list" where
  "repliedFor [] = []"
| "repliedFor (RejectWithError i msg ps # es) = i # repliedFor es"
| "repliedFor (e # es) = repliedFor es"




text \<open>
  The state of the two loops keeps track of the replies: no handler has two, and every
  handler with a reply is in \<open>completedIocs\<close>.
\<close>

definition repliesTracked :: "InstanceOrConstructor list \<times> 'p Effect list \<Rightarrow> bool" where
  "repliesTracked st =
     (distinct (repliedFor (snd st)) \<and> set (repliedFor (snd st)) \<subseteq> set (fst st))"


section \<open>The lookup as the specification words it\<close>



section \<open>Concrete handlers for the instances below\<close>

text \<open>
  Message events only are message related here, a regular expression matches the
  strings equal to it, and the handlers \<open>Instance 3\<close> and \<open>Instance 4\<close> throw.
\<close>

definition demoExternals :: "(string, nat) Externals" where
  "demoExternals =
     \<lparr>isMessageRelated = (\<lambda>opts. event opts = MESSAGE),
      matchRegex = (\<lambda>regex str. regex = str),
      reasonKey = (\<lambda>rsn. case rsn of
                      WRONG_LOCATION \<Rightarrow> ''WRONG_LOCATION''
                    | MISSING_ROLE \<Rightarrow> ''MISSING_ROLE''
                    | DOESNT_MATCH_REGEX \<Rightarrow> ''DOESNT_MATCH_REGEX''),
      handle = (\<lambda>i log. if i = Instance 3 then Some (Error ''boom'')
                        else if i = Instance 4 then Some (ErrorWithParams ''busy'' 7)
                        else None)\<rparr>"

definition anyOptions :: "string EventHandlerOptions" where
  "anyOptions =
     \<lparr>event = MESSAGE, location = Some ANYWHERE, allowedRoles = None, contentRegex = None,
      errors = None, commandOptions = None\<rparr>"

definition wildcardHandler :: "string HIOC" where
  "wildcardHandler = \<lparr>ioc = Instance 1, options = anyOptions\<rparr>"

definition exactHandler :: "string HIOC" where
  "exactHandler = \<lparr>ioc = Constructor 2, options = anyOptions\<rparr>"

definition serverHandler :: "string HIOC" where
  "serverHandler =
     \<lparr>ioc = Instance 5,
      options = anyOptions\<lparr>location := Some SERVER, allowedRoles := Some [''Support''],
                  errors := Some [''WRONG_LOCATION'' \<mapsto> ''Only on the server'']\<rparr>\<rparr>"

definition throwingHandler :: "nat \<Rightarrow> (string \<rightharpoonup> string) option \<Rightarrow> string HIOC" where
  "throwingHandler n table = \<lparr>ioc = Instance n, options = anyOptions\<lparr>errors := table\<rparr>\<rparr>"

definition occurrence :: "string list \<Rightarrow> bool \<Rightarrow> HandlerInfo" where
  "occurrence keys isDM =
     \<lparr>handlerKeys = keys, isDirectMessage = isDM, member = None, content = None\<rparr>"

text \<open>
  A slash command with the given option declarations, registered under the command id
  \<open>abc123\<close> and the subcommand \<open>ping\<close>; an autocomplete request for it; and two
  callbacks, of which the first resolves and every other one throws.
\<close>

definition slashHandler :: "CommandOption list option \<Rightarrow> string HIOC" where
  "slashHandler declared =
     \<lparr>ioc = Instance 6,
      options = anyOptions\<lparr>event := SLASH_COMMAND, commandOptions := declared\<rparr>\<rparr>"

definition slashRegistry :: "string HIOC list \<Rightarrow> string EventDistributionHandlers" where
  "slashRegistry hs =
     (\<lambda>ev. HIOCTree [(''abc123'', HIOCTree [('''', HIOCTree [(''ping'', HIOCArray hs)])])])"

definition autocompleteRequest :: "string \<Rightarrow> AutocompleteInteraction" where
  "autocompleteRequest focused =
     \<lparr>commandId = ''abc123'', subcommandGroup = None, subcommand = Some ''ping'',
      focusedName = focused, focusedValue = ''pa''\<rparr>"

definition demoCallback :: "nat \<Rightarrow> string \<Rightarrow> string + string list" where
  "demoCallback f v = (if f = 0 then Inr [v @ ''ris'', v @ ''lermo''] else Inl ''lookup failed'')"

lemmas demo_defs =
  demoExternals_def anyOptions_def wildcardHandler_def exactHandler_def serverHandler_def
  throwingHandler_def occurrence_def slashHandler_def slashRegistry_def
  autocompleteRequest_def demoCallback_def

lemmas dispatch_defs =
  handleEvent_def filterResultsOf_def infoToFilterResults_def filterHandlers_def
  locationStage_def roleStage_def contentStage_def isHandlerForLocation_def
  isHandlerForRole_def matchesContentRegex_def acceptedHiocs_def invokeHandler_def
  onFailure_def configuredText_def

lemmas autocomplete_defs =
  handleAutocomplete_def slashCommandHandlerKeys_def maybeAutocompleteOption_def

section \<open>Lemmas on the lookup\<close>



lemma getHandlers_blank_keys:
  "keys = [] \<Longrightarrow> getHandlers t (replicate n '''') = getHandlers t keys"
proof (induction t keys arbitrary: n rule: getHandlers.induct)
  case (1 keys)
  then show ?case by simp
next
  case (2 hs keys)
  then show ?case by simp
next
  case (3 kids)
  show ?case
  proof (cases n)
    case 0
    then show ?thesis by simp
  next
    case (Suc m)
    then show ?thesis using 3 by simp
  qed
next
  case (4 kids currentKey restKeys)
  then show ?case by simp
qed

section \<open>Lemmas on the filter pipeline\<close>

lemma filterHandlers_map:
  "filterHandlers X hs isDM roleNames c =
     map (\<lambda>eh. if \<not> isHandlerForLocation X eh isDM then Reject eh WRONG_LOCATION
               else if \<not> isHandlerForRole X eh roleNames then Reject eh MISSING_ROLE
               else if \<not> matchesContentRegex X eh c then Reject eh DOESNT_MATCH_REGEX
               else Accept eh) hs"
  by (simp add: filterHandlers_def locationStage_def roleStage_def contentStage_def)

lemma handler_filterHandlers: "map handler (filterHandlers X hs isDM roleNames c) = hs"
  unfolding filterHandlers_map by (induction hs) auto


section \<open>Lemmas on the two loops\<close>


lemma repliedFor_append: "repliedFor (a @ b) = repliedFor a @ repliedFor b"
  by (induction a rule: repliedFor.induct) auto











lemma repliedFor_invokeHandler:
  "repliedFor (invokeHandler X h log) = [] \<or> repliedFor (invokeHandler X h log) = [ioc h]"
  by (cases "ioc h")
     (auto simp add: invokeHandler_def repliedFor_append onFailure_def split: option.splits)




lemma runAccepted_tracked:
  "repliesTracked (cs, log) \<Longrightarrow> repliesTracked (runAccepted X hs (cs, log))"
proof (induction hs arbitrary: cs log)
  case Nil
  then show ?case by simp
next
  case (Cons h hs)
  show ?case
  proof (cases "ioc h \<in> set cs")
    case True
    then show ?thesis using Cons by simp
  next
    case False
    have "repliesTracked (cs @ [ioc h], log @ invokeHandler X h log)"
      using Cons.prems False repliedFor_invokeHandler [of X h log]
      by (auto simp: repliesTracked_def repliedFor_append)
    then show ?thesis using Cons.IH False by simp
  qed
qed

lemma runRejections_tracked:
  "repliesTracked (cs, log) \<Longrightarrow> repliesTracked (runRejections X rs (cs, log))"
proof (induction rs arbitrary: cs log)
  case Nil
  then show ?case by simp
next
  case (Cons r rs)
  obtain h rsn where r: "r = (h, rsn)" by (cases r)
  show ?case
  proof (cases "ioc h \<in> set cs")
    case True
    then show ?thesis using Cons r by simp
  next
    case False
    show ?thesis
    proof (cases "configuredText (errors (options h)) (reasonKey X rsn)")
      case None
      then show ?thesis using Cons r False by simp
    next
      case (Some msg)
      have "repliesTracked (cs @ [ioc h], log @ [RejectWithError (ioc h) msg None])"
        using Cons.prems False by (auto simp: repliesTracked_def repliedFor_append)
      then show ?thesis using Cons.IH r False Some by simp
    qed
  qed
qed





lemma count_list_distinct:
  "distinct xs \<Longrightarrow> count_list xs x = (if x \<in> set xs then 1 else 0)"
  by (induction xs) auto

section \<open>Order of discovery and of execution\<close>




section \<open>The lookup is a fan-out\<close>



section \<open>Exhausted key paths and empty segments\<close>

text \<open>
  C3: when the key path has run out at a node that is not a terminal, the lookup goes
  on into the child under the empty key only; when the current segment is the empty
  string, that child is descended once, so the result is the result for that child and
  every descriptor is returned as often as the child returns it. Hence a path of empty
  segments finds what the empty path finds.
\<close>

theorem getHandlers_wildcard_only:
  "getHandlers (Some (HIOCTree kids)) [] = getHandlers (map_of kids '''') []
   \<and> getHandlers (Some (HIOCTree kids)) ('''' # restKeys) = getHandlers (map_of kids '''') restKeys
   \<and> count_list (getHandlers (Some (HIOCTree kids)) ('''' # restKeys)) h
       = count_list (getHandlers (map_of kids '''') restKeys) h
   \<and> getHandlers t (replicate n '''') = getHandlers t []"
  using getHandlers_blank_keys [of "[]" t n] by simp

theorem getHandlers_wildcard_only_witness:
  "getHandlers
     (Some (HIOCTree [('''', HIOCTree [('''', HIOCArray [wildcardHandler])]),
                      (''general'', HIOCArray [exactHandler])])) []
     = [wildcardHandler]
   \<and> count_list (getHandlers
        (Some (HIOCTree [('''', HIOCArray [wildcardHandler]), (''general'', HIOCArray [exactHandler])]))
        ['''']) wildcardHandler = 1
   \<and> getHandlers
       (Some (HIOCTree [('''', HIOCTree [('''', HIOCArray [wildcardHandler])]),
                        (''general'', HIOCArray [exactHandler])])) (replicate 2 '''')
     = [wildcardHandler]"
  using getHandlers_wildcard_only
    [of "[('''', HIOCTree [('''', HIOCArray [wildcardHandler])]),
          (''general'', HIOCArray [exactHandler])]"
        "[]" wildcardHandler
        "Some (HIOCTree [('''', HIOCTree [('''', HIOCArray [wildcardHandler])]),
                         (''general'', HIOCArray [exactHandler])])" 2]
  by simp

section \<open>The filter pipeline reports the first failed stage\<close>

text \<open>
  C4: the pipeline gives one result for each candidate, in the order of the candidates,
  and the reason of a rejection is that of the first stage that fails in the order
  location, role, content; a candidate that fails the location stage is rejected with
  \<open>WRONG_LOCATION\<close> whatever the role stage would say.
\<close>

theorem filterHandlers_first_failed_stage:
  "filterHandlers X hs isDM roleNames c =
     map (\<lambda>eh. if \<not> isHandlerForLocation X eh isDM then Reject eh WRONG_LOCATION
               else if \<not> isHandlerForRole X eh roleNames then Reject eh MISSING_ROLE
               else if \<not> matchesContentRegex X eh c then Reject eh DOESNT_MATCH_REGEX
               else Accept eh) hs
   \<and> length (filterHandlers X hs isDM roleNames c) = length hs
   \<and> map handler (filterHandlers X hs isDM roleNames c) = hs
   \<and> (i < length hs \<and> \<not> isHandlerForLocation X (hs ! i) isDM
        \<longrightarrow> filterHandlers X hs isDM roleNames c ! i = Reject (hs ! i) WRONG_LOCATION)"
  using filterHandlers_map [of X hs isDM roleNames c]
    handler_filterHandlers [of X hs isDM roleNames c]
  by simp

theorem filterHandlers_first_failed_stage_witness:
  "\<not> isHandlerForLocation demoExternals serverHandler True
   \<and> \<not> isHandlerForRole demoExternals serverHandler []
   \<and> filterHandlers demoExternals [wildcardHandler, serverHandler] True [] None
     = [Accept wildcardHandler, Reject serverHandler WRONG_LOCATION]"
  using filterHandlers_first_failed_stage
    [of demoExternals "[wildcardHandler, serverHandler]" True "[]" None 1]
  by (simp add: demo_defs isHandlerForLocation_def isHandlerForRole_def
      matchesContentRegex_def)


section \<open>Each accepted handler runs once\<close>



section \<open>A failing handler\<close>





section \<open>Rejections are answered after the accepted handlers\<close>




section \<open>Autocomplete without a target\<close>

text \<open>
  C8, as stated: when the lookup finds no slash command, or the command has no option
  of the focused name, or the option does not support autocomplete, the router logs and
  returns an empty list of suggestions to the platform. The code logs the warning and
  returns without calling \<open>interaction.respond\<close>: the platform gets no answer.
\<close>

theorem autocomplete_empty_response_counterexample:
  "handleAutocomplete demoCallback (slashRegistry []) (autocompleteRequest ''city'')
     = [WarnNoHandler [''abc123'', '''', ''ping'']]
   \<and> Respond [] \<notin> set (handleAutocomplete demoCallback (slashRegistry [])
                          (autocompleteRequest ''city''))
   \<and> handleAutocomplete demoCallback
       (slashRegistry [slashHandler (Some [\<lparr>name = ''city'', autocomplete = NotDeclared\<rparr>])])
       (autocompleteRequest ''city'')
     = [WarnNoOption (Instance 6) ''city'']
   \<and> Respond [] \<notin> set (handleAutocomplete demoCallback
       (slashRegistry [slashHandler (Some [\<lparr>name = ''city'', autocomplete = NotDeclared\<rparr>])])
       (autocompleteRequest ''city''))"
  by (simp add: autocomplete_defs demo_defs)

text \<open>
  C8, amended: when the lookup with the key path of the request finds no slash
  command, the router logs a warning and makes no other call; when the first command
  found has no option of the focused name (no option list, or no option of that name
  in it), or that option has no \<open>autocomplete\<close> property or a falsy one, the router logs
  a warning and makes no other call. In neither case is a response sent.
\<close>

theorem autocomplete_without_target:
  "(getHandlers (Some (handlers SLASH_COMMAND)) (slashCommandHandlerKeys interaction) = []
     \<longrightarrow> handleAutocomplete callback handlers interaction
          = [WarnNoHandler (slashCommandHandlerKeys interaction)])
   \<and> (getHandlers (Some (handlers SLASH_COMMAND)) (slashCommandHandlerKeys interaction)
         = h # others
       \<and> (maybeAutocompleteOption h interaction = None
          \<or> (\<exists>opt. maybeAutocompleteOption h interaction = Some opt
                \<and> (autocomplete opt = NotDeclared \<or> autocomplete opt = DeclaredFalsy)))
     \<longrightarrow> handleAutocomplete callback handlers interaction
          = [WarnNoOption (ioc h) (focusedName interaction)])
   \<and> (maybeAutocompleteOption h interaction = None
       \<longleftrightarrow> commandOptions (options h) = None
           \<or> (\<exists>declared. commandOptions (options h) = Some declared
                 \<and> (\<forall>opt \<in> set declared. name opt \<noteq> focusedName interaction)))"
proof -
  have none: "handleAutocomplete callback handlers interaction
          = [WarnNoHandler (slashCommandHandlerKeys interaction)]"
    if "getHandlers (Some (handlers SLASH_COMMAND)) (slashCommandHandlerKeys interaction) = []"
    using that by (simp add: handleAutocomplete_def)
  have unsupported: "handleAutocomplete callback handlers interaction
          = [WarnNoOption (ioc h) (focusedName interaction)]"
    if "getHandlers (Some (handlers SLASH_COMMAND)) (slashCommandHandlerKeys interaction)
          = h # others"
      and "maybeAutocompleteOption h interaction = None
          \<or> (\<exists>opt. maybeAutocompleteOption h interaction = Some opt
                \<and> (autocomplete opt = NotDeclared \<or> autocomplete opt = DeclaredFalsy))"
    using that by (auto simp add: handleAutocomplete_def)
  have missing: "maybeAutocompleteOption h interaction = None
       \<longleftrightarrow> commandOptions (options h) = None
           \<or> (\<exists>declared. commandOptions (options h) = Some declared
                 \<and> (\<forall>opt \<in> set declared. name opt \<noteq> focusedName interaction))"
    by (cases "commandOptions (options h)")
       (auto simp add: maybeAutocompleteOption_def find_None_iff)
  show ?thesis using none unsupported missing by blast
qed

theorem autocomplete_without_target_witness:
  "getHandlers (Some (slashRegistry [] SLASH_COMMAND))
       (slashCommandHandlerKeys (autocompleteRequest ''city'')) = []
   \<and> handleAutocomplete demoCallback (slashRegistry []) (autocompleteRequest ''city'')
     = [WarnNoHandler [''abc123'', '''', ''ping'']]
   \<and> maybeAutocompleteOption
       (slashHandler (Some [\<lparr>name = ''country'', autocomplete = AutocompleteFn 0\<rparr>]))
       (autocompleteRequest ''city'') = None
   \<and> handleAutocomplete demoCallback
       (slashRegistry [slashHandler (Some [\<lparr>name = ''country'', autocomplete = AutocompleteFn 0\<rparr>])])
       (autocompleteRequest ''city'')
     = [WarnNoOption (Instance 6) ''city'']
   \<and> handleAutocomplete demoCallback
       (slashRegistry [slashHandler (Some [\<lparr>name = ''city'', autocomplete = DeclaredFalsy\<rparr>])])
       (autocompleteRequest ''city'')
     = [WarnNoOption (Instance 6) ''city'']"
  using autocomplete_without_target
    [of "slashRegistry []" "autocompleteRequest ''city''" demoCallback
        "slashHandler (Some [\<lparr>name = ''country'', autocomplete = AutocompleteFn 0\<rparr>])" "[]"]
    autocomplete_without_target
    [of "slashRegistry [slashHandler (Some [\<lparr>name = ''country'', autocomplete = AutocompleteFn 0\<rparr>])]"
        "autocompleteRequest ''city''" demoCallback
        "slashHandler (Some [\<lparr>name = ''country'', autocomplete = AutocompleteFn 0\<rparr>])" "[]"]
    autocomplete_without_target
    [of "slashRegistry [slashHandler (Some [\<lparr>name = ''city'', autocomplete = DeclaredFalsy\<rparr>])]"
        "autocompleteRequest ''city''" demoCallback
        "slashHandler (Some [\<lparr>name = ''city'', autocomplete = DeclaredFalsy\<rparr>])" "[]"]
  by (simp add: autocomplete_defs demo_defs)

section \<open>The autocomplete callback\<close>



section \<open>One reply for each handler\<close>

text \<open>
  C10: in a dispatch no handler gets two replies. A handler that gets a reply to a
  rejection is added to \<open>completedIocs\<close>, and a rejection whose handler is in
  \<open>completedIocs\<close> is skipped, so further rejections of that handler, from other
  occurrences or other key paths, are not answered.
\<close>

theorem one_reply_per_handler:
  "distinct (repliedFor (handleEvent X handlers ev infos))
   \<and> count_list (repliedFor (handleEvent X handlers ev infos)) i \<le> 1
   \<and> (ioc h \<notin> set cs \<and> configuredText (errors (options h)) (reasonKey X rsn) = Some msg
       \<longrightarrow> runRejections X ((h, rsn) # rest) (cs, log)
            = runRejections X rest (cs @ [ioc h], log @ [RejectWithError (ioc h) msg None])
          \<and> ioc h \<in> set (fst (runRejections X ((h, rsn) # rest) (cs, log))))
   \<and> (ioc h \<in> set cs
       \<longrightarrow> runRejections X ((h, rsn) # rest) (cs, log) = runRejections X rest (cs, log))"
proof -
  let ?F = "filterResultsOf X handlers ev infos"
  let ?A = "runAccepted X (acceptedHiocs ?F) ([], [])"
  have "repliesTracked ([], [])" by (simp add: repliesTracked_def)
  then have "repliesTracked (fst ?A, snd ?A)"
    using runAccepted_tracked [of "[]" "[]" X "acceptedHiocs ?F"] by simp
  then have "repliesTracked (runRejections X (rejectionsOf ?F) (fst ?A, snd ?A))"
    by (rule runRejections_tracked)
  then have once: "distinct (repliedFor (handleEvent X handlers ev infos))"
    by (simp add: handleEvent_def Let_def repliesTracked_def)
  have kept: "set cs' \<subseteq> set (fst (runRejections X rs (cs', log')))" for rs cs' log'
  proof (induction rs arbitrary: cs' log')
    case Nil
    show ?case by simp
  next
    case (Cons r rs)
    obtain h' rsn' where r: "r = (h', rsn')" by (cases r)
    show ?case
      using Cons [of cs' log']
        Cons [of "cs' @ [ioc h']"
                 "log' @ [RejectWithError (ioc h')
                            (the (configuredText (errors (options h')) (reasonKey X rsn'))) None]"]
      unfolding r by (auto split: option.splits)
  qed
  have added: "ioc h \<in> set (fst (runRejections X ((h, rsn) # rest) (cs, log)))"
    if "ioc h \<notin> set cs" "configuredText (errors (options h)) (reasonKey X rsn) = Some msg"
    using that kept [of "cs @ [ioc h]" rest "log @ [RejectWithError (ioc h) msg None]"]
    by simp
  show ?thesis
    using once added by (simp add: count_list_distinct)
qed

theorem one_reply_per_handler_witness:
  "rejectionsOf (filterResultsOf demoExternals
       (\<lambda>ev. HIOCTree [('''', HIOCArray [serverHandler]), (''general'', HIOCArray [serverHandler])])
       MESSAGE [occurrence [''general''] True, occurrence [''general''] True])
     = [(serverHandler, WRONG_LOCATION), (serverHandler, WRONG_LOCATION),
        (serverHandler, WRONG_LOCATION), (serverHandler, WRONG_LOCATION)]
   \<and> repliedFor (handleEvent demoExternals
       (\<lambda>ev. HIOCTree [('''', HIOCArray [serverHandler]), (''general'', HIOCArray [serverHandler])])
       MESSAGE [occurrence [''general''] True, occurrence [''general''] True])
     = [Instance 5]
   \<and> runRejections demoExternals
       [(serverHandler, WRONG_LOCATION), (serverHandler, WRONG_LOCATION)] ([], [])
     = ([Instance 5], [RejectWithError (Instance 5) ''Only on the server'' None])
   \<and> ioc serverHandler \<in> set [Instance 5]
   \<and> runRejections demoExternals [(serverHandler, WRONG_LOCATION)] ([Instance 5], [])
     = ([Instance 5], [])"
  using one_reply_per_handler
    [of demoExternals
        "\<lambda>ev. HIOCTree [('''', HIOCArray [serverHandler]), (''general'', HIOCArray [serverHandler])]"
        MESSAGE "[occurrence [''general''] True, occurrence [''general''] True]"
        "Instance 5" serverHandler "[]" WRONG_LOCATION "''Only on the server''"
        "[(serverHandler, WRONG_LOCATION)]" "[]"]
    one_reply_per_handler
    [of demoExternals
        "\<lambda>ev. HIOCTree [('''', HIOCArray [serverHandler]), (''general'', HIOCArray [serverHandler])]"
        MESSAGE "[occurrence [''general''] True, occurrence [''general''] True]"
        "Instance 5" serverHandler "[Instance 5]" WRONG_LOCATION "''Only on the server''"
        "[]" "[]"]
  by (simp add: dispatch_defs demo_defs)

end
